theory Spec2Isabelle
  imports Complex_Main
begin

section \<open>Data model: the schemas of backend/server.js\<close>

text \<open>
  An object identifier (mongoose's ObjectId) is a 96-bit number, modelled by its value; a
  user's \<open>_id\<close>, a course's \<open>_id\<close> and the references in \<open>coursesApplied\<close> are of
  this type. Its text form is 24 hexadecimal digits (see \<open>ObjectId_toString\<close> and
  \<open>cast_ObjectId\<close> below).
\<close>

type_synonym oid = nat

text \<open>
  A JavaScript number is either NaN or a finite value. The server only compares numbers
  and passes them on, and comparison of finite doubles is exact, so a finite number is
  modelled by its value.
\<close>

datatype jsnum = NaN | Num rat

text \<open>BioDataSchema. A field of a stored sub-document may be unset (\<open>undefined\<close>).\<close>

record bio_data =
  name :: "string option"
  age :: "jsnum option"
  specialization :: "string option"
  marks10th :: "jsnum option"
  marks12th :: "jsnum option"
  certificates :: "string list"

datatype application_status = Pending | Under_Review | Approved | Rejected

text \<open>UserSchema (the timestamps are left out: no route reads them).\<close>

record user =
  uid :: oid
  email :: string
  password :: string
  username :: string
  phonenumber :: string
  bioData :: "bio_data option"
  coursesApplied :: "oid list"
  applicationStatus :: application_status

text \<open>CourseSchema. The catalog is seeded from outside and holds finite numbers.\<close>

record course =
  cid :: oid
  cname :: string
  specializationRequired :: string
  minimumMarks :: rat

text \<open>The two collections of the database.\<close>

record store =
  users :: "user list"
  courses :: "course list"

section \<open>The environment of a request\<close>

text \<open>
  The libraries the server calls are not part of the repository. What they compute is a
  parameter of the model, and each awaited call may raise: \<open>throws env s\<close> says that the
  call at site \<open>s\<close> raises during this request, which the route's \<open>catch\<close> turns into
  status 500.
\<close>

datatype site =
  User_findOne_site | User_findById_site | User_populate_site | User_save_site | Course_find_site

datatype exn = Thrown

text \<open>
  \<open>jwt.verify(token, secret, callback)\<close> either raises, or calls back with an error, or
  calls back with the decoded payload, whose \<open>id\<close> is the user identifier.
\<close>

datatype verify_outcome = Verify_throws | Verify_err | Decoded oid

record env =
  throws :: "site \<Rightarrow> bool"
  jwt_verify :: "string option \<Rightarrow> verify_outcome"
  jwt_sign :: "oid \<Rightarrow> exn + string"
  bcrypt_hash :: "string \<Rightarrow> exn + string"
  new_ObjectId :: oid
  StringToNumber :: "string \<Rightarrow> jsnum"

section \<open>Responses\<close>

text \<open>\<open>appliedCourses\<close> is either populated with course documents or left as references.\<close>

datatype applied = Populated "course list" | Refs "oid list"

datatype body =
    ErrorBody string
  | MessageBody string
  | TokenBody string string oid
  | BioBody string bio_data
  | CoursesBody "course list" applied
  | UserBody string user

record response =
  status :: nat
  body :: body

definition json :: "nat \<Rightarrow> body \<Rightarrow> response" where
  "json code b = \<lparr>status = code, body = b\<rparr>"

section \<open>JavaScript primitives\<close>

text \<open>Truthiness of a value that is a string or \<open>undefined\<close>.\<close>

fun truthy :: "string option \<Rightarrow> bool" where
  "truthy None = False"
| "truthy (Some s) = (s \<noteq> [])"

text \<open>\<open>s.startsWith(p)\<close>\<close>

definition startsWith :: "string \<Rightarrow> string \<Rightarrow> bool" where
  "startsWith s p = (take (length p) s = p)"

text \<open>\<open>s.split(sep)\<close> for a one-character separator.\<close>

fun split_js :: "char \<Rightarrow> string \<Rightarrow> string list" where
  "split_js sep [] = [[]]"
| "split_js sep (c # cs) =
     (if c = sep then [] # split_js sep cs
      else (case split_js sep cs of
              w # ws \<Rightarrow> (c # w) # ws
            | [] \<Rightarrow> [[c]]))"

text \<open>\<open>xs[i]\<close>, which is \<open>undefined\<close> out of range.\<close>

fun index_js :: "'a list \<Rightarrow> nat \<Rightarrow> 'a option" where
  "index_js [] i = None"
| "index_js (x # xs) 0 = Some x"
| "index_js (x # xs) (Suc i) = index_js xs i"

text \<open>\<open>Number(v)\<close> for a value that is a string or \<open>undefined\<close>.\<close>

fun Number_js :: "env \<Rightarrow> string option \<Rightarrow> jsnum" where
  "Number_js env None = NaN"
| "Number_js env (Some s) = StringToNumber env s"

subsection \<open>Object identifiers as text\<close>

text \<open>The value of a hexadecimal digit, in either case.\<close>

definition hex_digit :: "char \<Rightarrow> nat option" where
  "hex_digit c =
     map_of
       [(CHR ''0'', 0), (CHR ''1'', 1), (CHR ''2'', 2), (CHR ''3'', 3), (CHR ''4'', 4),
        (CHR ''5'', 5), (CHR ''6'', 6), (CHR ''7'', 7), (CHR ''8'', 8), (CHR ''9'', 9),
        (CHR ''a'', 10), (CHR ''b'', 11), (CHR ''c'', 12), (CHR ''d'', 13), (CHR ''e'', 14),
        (CHR ''f'', 15),
        (CHR ''A'', 10), (CHR ''B'', 11), (CHR ''C'', 12), (CHR ''D'', 13), (CHR ''E'', 14),
        (CHR ''F'', 15)] c"

fun hex_value :: "nat \<Rightarrow> string \<Rightarrow> nat option" where
  "hex_value acc [] = Some acc"
| "hex_value acc (c # cs) =
     (case hex_digit c of
        None \<Rightarrow> None
      | Some d \<Rightarrow> hex_value (16 * acc + d) cs)"

text \<open>
  The cast of a text to an ObjectId, as \<open>push\<close> on \<open>coursesApplied\<close> applies it to its
  argument: a text of 24 hexadecimal digits, in either case, is the identifier it
  writes; any other text is refused (\<open>None\<close>, a CastError).
\<close>

definition cast_ObjectId :: "string \<Rightarrow> oid option" where
  "cast_ObjectId s = (if length s = 24 then hex_value 0 s else None)"

text \<open>
  \<open>id.toString()\<close>: the 24 digits in lower case (an identifier is below \<open>16 ^ 24\<close>).
\<close>

definition hex_char :: "nat \<Rightarrow> char" where
  "hex_char d = ''0123456789abcdef'' ! (d mod 16)"

fun hex_digits :: "nat \<Rightarrow> nat \<Rightarrow> string" where
  "hex_digits 0 i = []"
| "hex_digits (Suc n) i = hex_digits n (i div 16) @ [hex_char i]"

definition ObjectId_toString :: "oid \<Rightarrow> string" where
  "ObjectId_toString i = hex_digits 24 i"

text \<open>
  \<open>coursesApplied.includes(v)\<close> for a text \<open>v\<close>: the array compares \<open>v\<close> with each
  element by \<open>==\<close>, which turns the stored identifier into its text. Nothing is cast.
\<close>

definition includes_js :: "oid list \<Rightarrow> string \<Rightarrow> bool" where
  "includes_js xs v = (v \<in> set (map ObjectId_toString xs))"

text \<open>\<open>coursesApplied.push(v)\<close> for a text \<open>v\<close>: the text is cast, then appended.\<close>

definition push_js :: "oid list \<Rightarrow> string \<Rightarrow> exn + oid list" where
  "push_js xs v =
     (case cast_ObjectId v of
        None \<Rightarrow> Inl Thrown
      | Some c \<Rightarrow> Inr (xs @ [c]))"

section \<open>The auth middleware\<close>

text \<open>\<open>authHeader.split(" ")[1]\<close>\<close>

definition bearer_token :: "string \<Rightarrow> string option" where
  "bearer_token h = index_js (split_js CHR '' '' h) 1"

datatype 'a middleware = Respond response | Next 'a

definition auth :: "env \<Rightarrow> string option \<Rightarrow> oid middleware" where
  "auth env authHeader =
     (case authHeader of
        None \<Rightarrow> Respond (json 403 (ErrorBody ''No token provided or incorrect format''))
      | Some h \<Rightarrow>
          if \<not> truthy (Some h) \<or> \<not> startsWith h ''Bearer ''
          then Respond (json 403 (ErrorBody ''No token provided or incorrect format''))
          else
            (let token = bearer_token h in
             case jwt_verify env token of
               Verify_throws \<Rightarrow> Respond (json 500 (ErrorBody ''Failed to authenticate token''))
             | Verify_err \<Rightarrow> Respond (json 401 (ErrorBody ''Invalid or expired token''))
             | Decoded d \<Rightarrow> Next d))"

text \<open>A protected route runs the middleware first.\<close>

definition protected ::
  "env \<Rightarrow> string option \<Rightarrow> (oid \<Rightarrow> store \<Rightarrow> response \<times> store) \<Rightarrow> store \<Rightarrow> response \<times> store" where
  "protected env authHeader handler st =
     (case auth env authHeader of
        Respond r \<Rightarrow> (r, st)
      | Next d \<Rightarrow> handler d st)"

section \<open>Database operations\<close>

text \<open>\<open>User.findOne({ $or: [{ email }, { username }] })\<close>\<close>

definition User_findOne :: "env \<Rightarrow> store \<Rightarrow> string \<Rightarrow> string \<Rightarrow> exn + user option" where
  "User_findOne env st e n =
     (if throws env User_findOne_site then Inl Thrown
      else Inr (find (\<lambda>u. email u = e \<or> username u = n) (users st)))"

text \<open>\<open>User.findById(id)\<close>\<close>

definition User_findById :: "env \<Rightarrow> store \<Rightarrow> oid \<Rightarrow> exn + user option" where
  "User_findById env st i =
     (if throws env User_findById_site then Inl Thrown
      else Inr (find (\<lambda>u. uid u = i) (users st)))"

text \<open>
  \<open>.populate("coursesApplied")\<close>: every reference is replaced by the course document it
  names; a reference that names no course of the catalog is dropped.
\<close>

definition populate :: "store \<Rightarrow> oid list \<Rightarrow> course list" where
  "populate st ids = List.map_filter (\<lambda>i. find (\<lambda>c. cid c = i) (courses st)) ids"

text \<open>
  \<open>User.findById(id).populate("coursesApplied")\<close>: the user together with the populated
  list. The second query runs only when a user was found.
\<close>

definition User_findById_populate ::
  "env \<Rightarrow> store \<Rightarrow> oid \<Rightarrow> exn + (user \<times> course list) option" where
  "User_findById_populate env st i =
     (case User_findById env st i of
        Inl e \<Rightarrow> Inl e
      | Inr None \<Rightarrow> Inr None
      | Inr (Some u) \<Rightarrow>
          if throws env User_populate_site then Inl Thrown
          else Inr (Some (u, populate st (coursesApplied u))))"

text \<open>
  The comparison of \<open>{ $lte: marks }\<close>: a course's minimum against the user's marks,
  which match nothing when they are unset or NaN.
\<close>

fun lte :: "rat \<Rightarrow> jsnum option \<Rightarrow> bool" where
  "lte a (Some (Num b)) = (a \<le> b)"
| "lte a (Some NaN) = False"
| "lte a None = False"

text \<open>\<open>Course.find({ specializationRequired: spec, minimumMarks: { $lte: marks } })\<close>\<close>

definition Course_find :: "env \<Rightarrow> store \<Rightarrow> string option \<Rightarrow> jsnum option \<Rightarrow> exn + course list" where
  "Course_find env st spec marks =
     (if throws env Course_find_site then Inl Thrown
      else Inr (filter (\<lambda>c. Some (specializationRequired c) = spec \<and> lte (minimumMarks c) marks)
                  (courses st)))"

subsection \<open>Schema validation\<close>

text \<open>The \<open>enum\<close> of \<open>specialization\<close>.\<close>

definition specializations :: "string list" where
  "specializations = [''Accounts'', ''Biology'', ''Mathematics'', ''Computer Science'']"

text \<open>A path of type Number holds a number: the cast refuses NaN, \<open>required\<close> an unset path.\<close>

fun is_Number :: "jsnum option \<Rightarrow> bool" where
  "is_Number (Some (Num n)) = True"
| "is_Number (Some NaN) = False"
| "is_Number None = False"

text \<open>BioDataSchema: five required paths, the enum, the two Number casts.\<close>

definition valid_bioData :: "bio_data \<Rightarrow> bool" where
  "valid_bioData b =
     (truthy (name b) \<and> is_Number (age b)
      \<and> (case specialization b of None \<Rightarrow> False | Some s \<Rightarrow> s \<in> set specializations)
      \<and> is_Number (marks10th b) \<and> is_Number (marks12th b))"

text \<open>The four required strings of UserSchema.\<close>

definition valid_credentials :: "user \<Rightarrow> bool" where
  "valid_credentials u =
     (email u \<noteq> [] \<and> password u \<noteq> [] \<and> username u \<noteq> [] \<and> phonenumber u \<noteq> [])"

text \<open>
  The validation \<open>save()\<close> runs before it writes. The sub-document \<open>bioData\<close> always
  exists on a document (its default is \<open>{}\<close>, also for a loaded document that stores
  none), so its required paths are checked: the default \<open>{}\<close> does not pass.
\<close>

definition validate :: "user \<Rightarrow> bool" where
  "validate u =
     (valid_credentials u
      \<and> (case bioData u of None \<Rightarrow> False | Some b \<Rightarrow> valid_bioData b))"

text \<open>
  \<open>doc.save()\<close> of a new document validates it and inserts it; the collection's index on
  \<open>_id\<close> refuses an identifier that is already stored. The schema also asks for unique indexes on \<open>email\<close>
  and \<open>username\<close>; the only insert of the server comes after the route's own
  \<open>findOne\<close> check, which no request passes with a stored email or username, so the
  indexes never decide an insert here and are left out.
\<close>

definition save_new :: "env \<Rightarrow> store \<Rightarrow> user \<Rightarrow> exn + store" where
  "save_new env st u =
     (if throws env User_save_site then Inl Thrown
      else if \<not> validate u then Inl Thrown
      else if uid u \<in> set (map uid (users st)) then Inl Thrown
      else Inr (st\<lparr>users := users st @ [u]\<rparr>))"

text \<open>\<open>doc.save()\<close> of a loaded document validates it and writes it back under its \<open>_id\<close>.\<close>

definition save :: "env \<Rightarrow> store \<Rightarrow> user \<Rightarrow> exn + store" where
  "save env st u =
     (if throws env User_save_site then Inl Thrown
      else if \<not> validate u then Inl Thrown
      else Inr (st\<lparr>users := map (\<lambda>v. if uid v = uid u then u else v) (users st)\<rparr>))"

section \<open>POST /signup\<close>

text \<open>The JSON body of a signup, with its four fields present as strings.\<close>

record signup_body =
  body_email :: string
  body_password :: string
  body_username :: string
  body_phonenumber :: string

text \<open>The schema's default of \<open>bioData\<close> is the empty sub-document.\<close>

definition default_bioData :: bio_data where
  "default_bioData =
     \<lparr>name = None, age = None, specialization = None, marks10th = None, marks12th = None,
      certificates = []\<rparr>"

text \<open>\<open>new User({ email, password: hashedPassword, username, phonenumber })\<close>\<close>

definition new_User :: "env \<Rightarrow> string \<Rightarrow> string \<Rightarrow> string \<Rightarrow> string \<Rightarrow> user" where
  "new_User env e hashedPassword n ph =
     \<lparr>uid = new_ObjectId env, email = e, password = hashedPassword, username = n,
      phonenumber = ph, bioData = Some default_bioData, coursesApplied = [],
      applicationStatus = Pending\<rparr>"

definition internal_error :: response where
  "internal_error = json 500 (ErrorBody ''Internal server error'')"

definition signup :: "env \<Rightarrow> signup_body \<Rightarrow> store \<Rightarrow> response \<times> store" where
  "signup env b st =
     (case User_findOne env st (body_email b) (body_username b) of
        Inl _ \<Rightarrow> (internal_error, st)
      | Inr (Some existingUser) \<Rightarrow> (json 409 (MessageBody ''User already exists''), st)
      | Inr None \<Rightarrow>
          (case bcrypt_hash env (body_password b) of
             Inl _ \<Rightarrow> (internal_error, st)
           | Inr hashedPassword \<Rightarrow>
               (let newUser = new_User env (body_email b) hashedPassword (body_username b)
                                (body_phonenumber b)
                in case save_new env st newUser of
                     Inl _ \<Rightarrow> (internal_error, st)
                   | Inr st' \<Rightarrow>
                       (case jwt_sign env (uid newUser) of
                          Inl _ \<Rightarrow> (internal_error, st')
                        | Inr token \<Rightarrow>
                            (json 201 (TokenBody ''Signup successful'' token (uid newUser)),
                             st')))))"

section \<open>POST /bio\<close>

text \<open>A file as multer hands it to the route.\<close>

record uploaded_file =
  originalname :: string
  filename :: string

text \<open>
  The request after multer: the text fields, and the stored files. multer sets
  \<open>req.files\<close> only for a multipart request; otherwise it stays \<open>undefined\<close> (\<open>None\<close>)
  and \<open>req.files.map\<close> raises.
\<close>

record bio_request =
  req_name :: "string option"
  req_age :: "string option"
  req_specialization :: "string option"
  req_marks10th :: "string option"
  req_marks12th :: "string option"
  req_files :: "uploaded_file list option"

text \<open>The object literal assigned to \<open>user.bioData\<close>.\<close>

definition bio_of_request :: "env \<Rightarrow> bio_request \<Rightarrow> uploaded_file list \<Rightarrow> bio_data" where
  "bio_of_request env rq files =
     \<lparr>name = req_name rq,
      age = Some (Number_js env (req_age rq)),
      specialization = req_specialization rq,
      marks10th = Some (Number_js env (req_marks10th rq)),
      marks12th = Some (Number_js env (req_marks12th rq)),
      certificates = map filename files\<rparr>"

definition post_bio :: "env \<Rightarrow> bio_request \<Rightarrow> oid \<Rightarrow> store \<Rightarrow> response \<times> store" where
  "post_bio env rq i st =
     (if \<not> truthy (req_name rq) \<or> \<not> truthy (req_age rq) \<or> \<not> truthy (req_specialization rq)
      then (json 400 (ErrorBody ''Missing required fields''), st)
      else
        (case User_findById env st i of
           Inl _ \<Rightarrow> (internal_error, st)
         | Inr None \<Rightarrow> (json 404 (ErrorBody ''User not found''), st)
         | Inr (Some user) \<Rightarrow>
             (case req_files rq of
                None \<Rightarrow> (internal_error, st)
              | Some files \<Rightarrow>
                  (let bio = bio_of_request env rq files;
                       user' = user\<lparr>bioData := Some bio\<rparr>
                   in case save env st user' of
                        Inl _ \<Rightarrow> (internal_error, st)
                      | Inr st' \<Rightarrow>
                          (json 200 (BioBody ''Bio data uploaded successfully'' bio), st')))))"

definition route_bio :: "env \<Rightarrow> string option \<Rightarrow> bio_request \<Rightarrow> store \<Rightarrow> response \<times> store" where
  "route_bio env authHeader rq st = protected env authHeader (post_bio env rq) st"

section \<open>GET /courses and GET /user\<close>

definition bio_incomplete :: response where
  "bio_incomplete =
     json 400 (ErrorBody ''Please complete your bio data before applying for courses.'')"

definition get_courses :: "env \<Rightarrow> oid \<Rightarrow> store \<Rightarrow> response \<times> store" where
  "get_courses env i st =
     (case User_findById_populate env st i of
        Inl _ \<Rightarrow> (internal_error, st)
      | Inr None \<Rightarrow> (bio_incomplete, st)
      | Inr (Some (user, populated)) \<Rightarrow>
          (case bioData user of
             None \<Rightarrow> (bio_incomplete, st)
           | Some bio \<Rightarrow>
               if \<not> truthy (specialization bio) then (bio_incomplete, st)
               else
                 (case Course_find env st (specialization bio) (marks12th bio) of
                    Inl _ \<Rightarrow> (internal_error, st)
                  | Inr cs \<Rightarrow> (json 200 (CoursesBody cs (Populated populated)), st))))"

definition get_user :: "env \<Rightarrow> oid \<Rightarrow> store \<Rightarrow> response \<times> store" where
  "get_user env i st =
     (case User_findById env st i of
        Inl _ \<Rightarrow> (internal_error, st)
      | Inr None \<Rightarrow> (bio_incomplete, st)
      | Inr (Some user) \<Rightarrow>
          (case bioData user of
             None \<Rightarrow> (bio_incomplete, st)
           | Some bio \<Rightarrow>
               if \<not> truthy (specialization bio) then (bio_incomplete, st)
               else
                 (case Course_find env st (specialization bio) (marks12th bio) of
                    Inl _ \<Rightarrow> (internal_error, st)
                  | Inr cs \<Rightarrow>
                      (json 200 (CoursesBody cs (Refs (coursesApplied user))), st))))"

definition route_courses :: "env \<Rightarrow> string option \<Rightarrow> store \<Rightarrow> response \<times> store" where
  "route_courses env authHeader st = protected env authHeader (get_courses env) st"

definition route_user :: "env \<Rightarrow> string option \<Rightarrow> store \<Rightarrow> response \<times> store" where
  "route_user env authHeader st = protected env authHeader (get_user env) st"

section \<open>POST /apply/:courseId and POST /apply-course\<close>

text \<open>The path parameter \<open>courseId\<close> is a text.\<close>

definition post_apply :: "env \<Rightarrow> string \<Rightarrow> oid \<Rightarrow> store \<Rightarrow> response \<times> store" where
  "post_apply env courseId i st =
     (case User_findById env st i of
        Inl _ \<Rightarrow> (internal_error, st)
      | Inr None \<Rightarrow> (json 404 (ErrorBody ''User not found''), st)
      | Inr (Some user) \<Rightarrow>
          (case push_js (coursesApplied user) courseId of
             Inl _ \<Rightarrow> (internal_error, st)
           | Inr pushed \<Rightarrow>
               (let user' = user\<lparr>coursesApplied := pushed, applicationStatus := Under_Review\<rparr>
                in case save env st user' of
                     Inl _ \<Rightarrow> (internal_error, st)
                   | Inr st' \<Rightarrow>
                       (json 200 (UserBody ''Course applied successfully'' user'), st'))))"

definition route_apply :: "env \<Rightarrow> string option \<Rightarrow> string \<Rightarrow> store \<Rightarrow> response \<times> store" where
  "route_apply env authHeader courseId st = protected env authHeader (post_apply env courseId) st"

definition internal_error_dot :: response where
  "internal_error_dot = json 500 (ErrorBody ''Internal server error.'')"

text \<open>
  The body's \<open>courseId\<close> is a text, or \<open>None\<close> when the field is missing;
  \<open>!courseId\<close> holds for a missing field and for the empty text.
\<close>

definition post_apply_course :: "env \<Rightarrow> string option \<Rightarrow> oid \<Rightarrow> store \<Rightarrow> response \<times> store" where
  "post_apply_course env courseId i st =
     (case User_findById env st i of
        Inl _ \<Rightarrow> (internal_error_dot, st)
      | Inr None \<Rightarrow> (json 404 (ErrorBody ''User not found.''), st)
      | Inr (Some user) \<Rightarrow>
          (case courseId of
             None \<Rightarrow> (json 400 (ErrorBody ''Course ID is required.''), st)
           | Some c \<Rightarrow>
               if \<not> truthy (Some c) then (json 400 (ErrorBody ''Course ID is required.''), st)
               else if includes_js (coursesApplied user) c
               then (json 400 (ErrorBody ''You have already applied for this course.''), st)
               else
                 (case push_js (coursesApplied user) c of
                    Inl _ \<Rightarrow> (internal_error_dot, st)
                  | Inr pushed \<Rightarrow>
                      (let user' = user\<lparr>coursesApplied := pushed\<rparr>
                       in case save env st user' of
                            Inl _ \<Rightarrow> (internal_error_dot, st)
                          | Inr st' \<Rightarrow>
                              (json 200 (MessageBody ''Application submitted successfully!''),
                               st')))))"


section \<open>Definitions used to state the properties\<close>

text \<open>
  The eligibility predicate as the specification words it: the course requires the
  user's specialization, and its minimum marks are at most the user's 12th marks.
\<close>

definition eligible_spec :: "bio_data \<Rightarrow> course \<Rightarrow> bool" where
  "eligible_spec b c =
     (Some (specializationRequired c) = specialization b
      \<and> (case marks12th b of Some (Num m) \<Rightarrow> minimumMarks c \<le> m | _ \<Rightarrow> False))"

text \<open>A response with its \<open>appliedCourses\<close> field blanked, to compare the two listings.\<close>

definition erase_applied :: "response \<Rightarrow> response" where
  "erase_applied r =
     (case body r of
        CoursesBody cs ap \<Rightarrow> r\<lparr>body := CoursesBody cs (Refs [])\<rparr>
      | _ \<Rightarrow> r)"

text \<open>The user document after applications to the courses \<open>cs\<close> through /apply/:courseId.\<close>

abbreviation applied_user :: "user \<Rightarrow> oid list \<Rightarrow> user" where
  "applied_user u cs \<equiv>
     u\<lparr>coursesApplied := coursesApplied u @ cs, applicationStatus := Under_Review\<rparr>"

text \<open>No two stored users share an email, and no two share a username.\<close>

definition unique_credentials :: "store \<Rightarrow> bool" where
  "unique_credentials st =
     (distinct (map email (users st)) \<and> distinct (map username (users st)))"

text \<open>The stores that signups build, starting without users, whatever each request's
  environment and outcome.\<close>

inductive signup_reachable :: "store \<Rightarrow> bool" where
  empty_users: "signup_reachable \<lparr>users = [], courses = cs\<rparr>"
| after_signup: "signup_reachable st \<Longrightarrow> signup_reachable (snd (signup env b st))"

subsection \<open>Example data\<close>

definition example_env :: env where
  "example_env =
     \<lparr>throws = (\<lambda>s. False),
      jwt_verify = (\<lambda>t. if t = Some ''t1'' then Decoded 1 else Verify_err),
      jwt_sign = (\<lambda>i. Inr ''t1''),
      bcrypt_hash = (\<lambda>p. Inr (''$2b$10$'' @ p)),
      new_ObjectId = 1,
      StringToNumber = (\<lambda>s. if s = ''80'' then Num 80 else if s = ''19'' then Num 19 else NaN)\<rparr>"

definition example_course :: "oid \<Rightarrow> string \<Rightarrow> rat \<Rightarrow> course" where
  "example_course i s m =
     \<lparr>cid = i, cname = ''Course'', specializationRequired = s, minimumMarks = m\<rparr>"

definition example_bio :: bio_data where
  "example_bio =
     \<lparr>name = Some ''Alice'', age = Some (Num 19), specialization = Some ''Biology'',
      marks10th = Some (Num 75), marks12th = Some (Num 80), certificates = [''c.pdf'']\<rparr>"

definition example_user :: user where
  "example_user =
     \<lparr>uid = 1, email = ''a@x.com'', password = ''$2b$10$pw'', username = ''alice'',
      phonenumber = ''555'', bioData = Some example_bio, coursesApplied = [7],
      applicationStatus = Pending\<rparr>"

definition example_store :: store where
  "example_store =
     \<lparr>users = [example_user],
      courses = [example_course 7 ''Biology'' 70, example_course 8 ''Biology'' 90,
                 example_course 9 ''Accounts'' 50]\<rparr>"

definition empty_store :: store where
  "empty_store = \<lparr>users = [], courses = []\<rparr>"

definition example_signup :: signup_body where
  "example_signup =
     \<lparr>body_email = ''a@x.com'', body_password = ''pw'', body_username = ''alice'',
      body_phonenumber = ''555''\<rparr>"

definition example_files :: "uploaded_file list" where
  "example_files =
     [\<lparr>originalname = ''my cert.pdf'', filename = ''1700000000000-my-cert.pdf''\<rparr>]"

definition example_full_request :: bio_request where
  "example_full_request =
     \<lparr>req_name = Some ''Alice B'', req_age = Some ''19'', req_specialization = Some ''Accounts'',
      req_marks10th = Some ''80'', req_marks12th = Some ''80'', req_files = Some example_files\<rparr>"



section \<open>Shared lemmas\<close>

lemma protected_Next: "auth env h = Next i \<Longrightarrow> protected env h f st = f i st"
  by (simp add: protected_def)

lemma auth_status: "auth env h = Respond r \<Longrightarrow> status r \<in> {401, 403, 500}"
  by (cases h; cases "jwt_verify env (bearer_token (the h))")
     (auto simp: auth_def json_def split: if_splits)

lemma find_uid: "find (\<lambda>v. uid v = i) xs = Some u \<Longrightarrow> uid u = i"
  by (induction xs) (auto split: if_splits)

lemma find_written_back:
  "find (\<lambda>v. uid v = i) xs = Some u \<Longrightarrow> uid u' = i \<Longrightarrow>
   find (\<lambda>v. uid v = i) (map (\<lambda>v. if uid v = uid u' then u' else v) xs) = Some u'"
  by (induction xs) (auto split: if_splits)

lemma find_appended:
  "i \<notin> set (map uid xs) \<Longrightarrow> uid u = i \<Longrightarrow> find (\<lambda>v. uid v = i) (xs @ [u]) = Some u"
  by (induction xs) auto

lemma example_auth: "auth example_env (Some ''Bearer t1'') = Next 1"
  by (simp add: auth_def example_env_def startsWith_def bearer_token_def)

lemma example_no_throws: "\<not> throws example_env s"
  by (simp add: example_env_def)

lemma example_find: "find (\<lambda>u. uid u = 1) (users example_store) = Some example_user"
  by (simp add: example_store_def example_user_def)

lemma validate_applied [simp]:
  "validate (u\<lparr>coursesApplied := cs, applicationStatus := a\<rparr>) = validate u"
  "validate (u\<lparr>coursesApplied := cs\<rparr>) = validate u"
  by (simp_all add: validate_def valid_credentials_def)

lemma example_user_valid: "validate example_user"
  by (simp add: validate_def valid_credentials_def valid_bioData_def example_user_def
                example_bio_def specializations_def)




lemma cast_7: "cast_ObjectId ''000000000000000000000007'' = Some 7"
  by code_simp


lemma cast_upper: "cast_ObjectId ''00000000000000000000000A'' = Some 10"
  by code_simp

lemma toString_7: "ObjectId_toString 7 = ''000000000000000000000007''"
  by code_simp


lemma toString_10: "ObjectId_toString 10 = ''00000000000000000000000a''"
  by code_simp

lemma cast_nonempty: "cast_ObjectId s = Some c \<Longrightarrow> s \<noteq> []"
  by (auto simp: cast_ObjectId_def split: if_splits)

lemma includes_upper_1: "\<not> includes_js [7] ''00000000000000000000000A''"
  by code_simp

lemma includes_upper_2: "\<not> includes_js [7, 10] ''00000000000000000000000A''"
  by code_simp



section \<open>The auth middleware\<close>

text \<open>
  Claim C5. The middleware answers 403 exactly when the Authorization header is absent or
  does not start with "Bearer ", 401 exactly when the bearer token is refused by the
  verification callback, 500 exactly when verification raises, and hands the decoded
  identifier on exactly when verification succeeds; no other status is produced, so
  the failure classes exclude one another.
\<close>

theorem auth_failure_classes:
  "(auth env authHeader = Respond (json 403 (ErrorBody ''No token provided or incorrect format'')))
     = (authHeader = None \<or> (\<exists>h. authHeader = Some h \<and> \<not> startsWith h ''Bearer ''))
   \<and> (auth env authHeader = Respond (json 401 (ErrorBody ''Invalid or expired token'')))
     = (\<exists>h. authHeader = Some h \<and> startsWith h ''Bearer ''
            \<and> jwt_verify env (bearer_token h) = Verify_err)
   \<and> (auth env authHeader = Respond (json 500 (ErrorBody ''Failed to authenticate token'')))
     = (\<exists>h. authHeader = Some h \<and> startsWith h ''Bearer ''
            \<and> jwt_verify env (bearer_token h) = Verify_throws)
   \<and> (auth env authHeader = Next d)
     = (\<exists>h. authHeader = Some h \<and> startsWith h ''Bearer ''
            \<and> jwt_verify env (bearer_token h) = Decoded d)
   \<and> (\<forall>r. auth env authHeader = Respond r \<longrightarrow> status r \<in> {401, 403, 500})"
  by (cases authHeader; cases "jwt_verify env (bearer_token (the authHeader))")
     (auto simp: auth_def json_def startsWith_def)

theorem auth_failure_classes_witness:
  "auth example_env (Some ''Bearer t1'') = Next 1
   \<and> auth example_env (Some ''Bearer t2'')
       = Respond (json 401 (ErrorBody ''Invalid or expired token''))
   \<and> auth example_env (Some ''t1'')
       = Respond (json 403 (ErrorBody ''No token provided or incorrect format''))
   \<and> auth (example_env\<lparr>jwt_verify := (\<lambda>t. Verify_throws)\<rparr>) (Some ''Bearer t1'')
       = Respond (json 500 (ErrorBody ''Failed to authenticate token''))"
  using auth_failure_classes [of example_env "Some ''Bearer t1''" 1]
        auth_failure_classes [of example_env "Some ''Bearer t2''" 1]
        auth_failure_classes [of example_env "Some ''t1''" 1]
        auth_failure_classes [of "example_env\<lparr>jwt_verify := (\<lambda>t. Verify_throws)\<rparr>"
                                 "Some ''Bearer t1''" 1]
  by (simp add: example_env_def startsWith_def bearer_token_def)

section \<open>Course discovery\<close>

lemma eligible_spec_lte:
  "eligible_spec b c =
     (Some (specializationRequired c) = specialization b \<and> lte (minimumMarks c) (marks12th b))"
  by (cases "(minimumMarks c, marks12th b)" rule: lte.cases) (simp_all add: eligible_spec_def)

lemma eligible_spec_iff:
  "eligible_spec b c =
     (Some (specializationRequired c) = specialization b
      \<and> (\<exists>m. marks12th b = Some (Num m) \<and> minimumMarks c \<le> m))"
proof (cases "marks12th b")
  case None
  then show ?thesis by (simp add: eligible_spec_def)
next
  case (Some n)
  then show ?thesis by (cases n) (simp_all add: eligible_spec_def)
qed

lemma Course_find_spec:
  "\<not> throws env Course_find_site \<Longrightarrow>
   Course_find env st (specialization b) (marks12th b) = Inr (filter (eligible_spec b) (courses st))"
  by (simp add: Course_find_def eligible_spec_lte [symmetric])

lemma get_courses_ok:
  assumes "\<not> throws env User_findById_site" "\<not> throws env User_populate_site"
      and "\<not> throws env Course_find_site"
      and "find (\<lambda>u. uid u = i) (users st) = Some u"
      and "bioData u = Some b" and "truthy (specialization b)"
  shows "get_courses env i st =
           (json 200 (CoursesBody (filter (eligible_spec b) (courses st))
                        (Populated (populate st (coursesApplied u)))), st)"
  using assms
  by (simp add: get_courses_def User_findById_populate_def User_findById_def Course_find_spec)

lemma get_user_ok:
  assumes "\<not> throws env User_findById_site" "\<not> throws env Course_find_site"
      and "find (\<lambda>u. uid u = i) (users st) = Some u"
      and "bioData u = Some b" and "truthy (specialization b)"
  shows "get_user env i st =
           (json 200 (CoursesBody (filter (eligible_spec b) (courses st))
                        (Refs (coursesApplied u))), st)"
  using assms by (simp add: get_user_def User_findById_def Course_find_spec)

lemma get_courses_state: "snd (get_courses env i st) = st"
  by (simp add: get_courses_def split: sum.splits option.splits prod.splits)

lemma get_user_state: "snd (get_user env i st) = st"
  by (simp add: get_user_def split: sum.splits option.splits)

lemma get_courses_user_erased:
  "\<not> throws env User_populate_site \<Longrightarrow>
   erase_applied (fst (get_courses env i st)) = erase_applied (fst (get_user env i st))"
  by (simp add: get_courses_def get_user_def User_findById_populate_def json_def
                internal_error_def bio_incomplete_def erase_applied_def
           split: sum.splits option.splits)

lemma get_incomplete:
  assumes "\<not> throws env User_findById_site"
      and "find (\<lambda>u. uid u = i) (users st) = Some u"
      and "bioData u = None \<or> (\<exists>b. bioData u = Some b \<and> \<not> truthy (specialization b))"
  shows "\<not> throws env User_populate_site \<Longrightarrow> get_courses env i st = (bio_incomplete, st)"
    and "get_user env i st = (bio_incomplete, st)"
  using assms
  by (auto simp: get_courses_def get_user_def User_findById_populate_def User_findById_def)

lemma get_unknown:
  assumes "\<not> throws env User_findById_site"
      and "find (\<lambda>u. uid u = i) (users st) = None"
  shows "get_courses env i st = (bio_incomplete, st)" and "get_user env i st = (bio_incomplete, st)"
  using assms
  by (auto simp: get_courses_def get_user_def User_findById_populate_def User_findById_def)

text \<open>
  Claim C1. For a user whose bio data has a specialization, GET /courses and GET /user
  answer 200 with the catalog filtered by the two predicates (required specialization
  equal to the user's, minimum marks at most the user's 12th marks): exactly the courses
  satisfying both appear. The store is left as it was, and a second request on it gives
  the same answer. The requests are authenticated and no library call raises.
\<close>

theorem course_discovery_exact:
  assumes "auth env authHeader = Next i" and "auth env' authHeader' = Next i"
      and "\<not> throws env User_findById_site" and "\<not> throws env User_populate_site"
      and "\<not> throws env Course_find_site"
      and "\<not> throws env' User_findById_site" and "\<not> throws env' User_populate_site"
      and "\<not> throws env' Course_find_site"
      and "find (\<lambda>u. uid u = i) (users st) = Some u"
      and "bioData u = Some b" and "truthy (specialization b)"
  shows "route_courses env authHeader st =
           (json 200 (CoursesBody (filter (eligible_spec b) (courses st))
                        (Populated (populate st (coursesApplied u)))), st)
       \<and> route_user env authHeader st =
           (json 200 (CoursesBody (filter (eligible_spec b) (courses st))
                        (Refs (coursesApplied u))), st)
       \<and> set (filter (eligible_spec b) (courses st))
           = {c \<in> set (courses st).
                Some (specializationRequired c) = specialization b
                \<and> (\<exists>m. marks12th b = Some (Num m) \<and> minimumMarks c \<le> m)}
       \<and> route_courses env' authHeader' (snd (route_courses env authHeader st))
           = route_courses env authHeader st
       \<and> route_user env' authHeader' (snd (route_user env authHeader st))
           = route_user env authHeader st"
proof -
  have c: "route_courses env authHeader st =
           (json 200 (CoursesBody (filter (eligible_spec b) (courses st))
                        (Populated (populate st (coursesApplied u)))), st)"
    using assms by (simp add: route_courses_def protected_Next get_courses_ok)
  have c': "route_courses env' authHeader' st = route_courses env authHeader st"
    using assms c by (simp add: route_courses_def protected_Next get_courses_ok)
  have u: "route_user env authHeader st =
           (json 200 (CoursesBody (filter (eligible_spec b) (courses st))
                        (Refs (coursesApplied u))), st)"
    using assms by (simp add: route_user_def protected_Next get_user_ok)
  have u': "route_user env' authHeader' st = route_user env authHeader st"
    using assms u by (simp add: route_user_def protected_Next get_user_ok)
  have s: "set (filter (eligible_spec b) (courses st))
           = {c \<in> set (courses st).
                Some (specializationRequired c) = specialization b
                \<and> (\<exists>m. marks12th b = Some (Num m) \<and> minimumMarks c \<le> m)}"
    by (auto simp: eligible_spec_iff)
  show ?thesis using c c' u u' s by simp
qed

theorem course_discovery_exact_witness:
  "route_courses example_env (Some ''Bearer t1'') example_store =
     (json 200 (CoursesBody [example_course 7 ''Biology'' 70]
                  (Populated [example_course 7 ''Biology'' 70])), example_store)
   \<and> route_user example_env (Some ''Bearer t1'') example_store =
     (json 200 (CoursesBody [example_course 7 ''Biology'' 70] (Refs [7])), example_store)"
proof -
  have b: "bioData example_user = Some example_bio" "truthy (specialization example_bio)"
    by (simp_all add: example_user_def example_bio_def)
  show ?thesis
    using course_discovery_exact
            [of example_env "Some ''Bearer t1''" 1 example_env "Some ''Bearer t1''" example_store
                example_user example_bio]
          example_auth example_no_throws example_find b
    by (simp add: example_store_def example_user_def example_bio_def example_course_def
                  eligible_spec_def populate_def List.map_filter_def)
qed

lemma find_cid: "find (\<lambda>c. cid c = r) cs = Some d \<Longrightarrow> d \<in> set cs \<and> cid d = r"
  by (induction cs) (auto split: if_splits)

text \<open>
  Claim C8. GET /courses and GET /user give the same answer up to the appliedCourses
  field (when the extra populate query of /courses does not raise) and leave the store
  unchanged; both answer 400 when the user's specialization is unset; on success both
  carry the same availableCourses, /courses with the catalog documents that the user's
  references name, in the references' order, and /user with the references themselves.
\<close>

theorem courses_and_user_share_logic:
  "(\<not> throws env User_populate_site
      \<longrightarrow> erase_applied (fst (route_courses env h st)) = erase_applied (fst (route_user env h st)))
   \<and> snd (route_courses env h st) = st \<and> snd (route_user env h st) = st
   \<and> (\<forall>i u. auth env h = Next i \<and> \<not> throws env User_findById_site
             \<and> \<not> throws env User_populate_site
             \<and> find (\<lambda>u. uid u = i) (users st) = Some u
             \<and> (bioData u = None \<or> (\<exists>b. bioData u = Some b \<and> \<not> truthy (specialization b)))
        \<longrightarrow> route_courses env h st = (bio_incomplete, st)
          \<and> route_user env h st = (bio_incomplete, st)
          \<and> status bio_incomplete = 400)
   \<and> (\<forall>i u b. auth env h = Next i \<and> \<not> throws env User_findById_site
             \<and> \<not> throws env User_populate_site \<and> \<not> throws env Course_find_site
             \<and> find (\<lambda>u. uid u = i) (users st) = Some u
             \<and> bioData u = Some b \<and> truthy (specialization b)
        \<longrightarrow> fst (route_courses env h st)
              = json 200 (CoursesBody (filter (eligible_spec b) (courses st))
                  (Populated (List.map_filter (\<lambda>r. find (\<lambda>c. cid c = r) (courses st))
                                (coursesApplied u))))
          \<and> fst (route_user env h st)
              = json 200 (CoursesBody (filter (eligible_spec b) (courses st))
                  (Refs (coursesApplied u)))
          \<and> (\<forall>d \<in> set (List.map_filter (\<lambda>r. find (\<lambda>c. cid c = r) (courses st))
                            (coursesApplied u)).
                d \<in> set (courses st) \<and> cid d \<in> set (coursesApplied u)))"
proof -
  have e: "\<not> throws env User_populate_site
      \<longrightarrow> erase_applied (fst (route_courses env h st)) = erase_applied (fst (route_user env h st))"
    by (cases "auth env h")
       (simp_all add: route_courses_def route_user_def protected_def get_courses_user_erased)
  have s: "snd (route_courses env h st) = st" "snd (route_user env h st) = st"
    by (cases "auth env h";
        simp add: route_courses_def route_user_def protected_def get_courses_state get_user_state)+
  have d: "\<And>ids. \<forall>d \<in> set (List.map_filter (\<lambda>r. find (\<lambda>c. cid c = r) (courses st)) ids).
                d \<in> set (courses st) \<and> cid d \<in> set ids"
    by (auto simp: List.map_filter_def dest: find_cid)
  show ?thesis
    using e s d
    by (auto simp: route_courses_def route_user_def protected_Next get_incomplete
                   get_courses_ok get_user_ok bio_incomplete_def json_def populate_def)
qed

theorem courses_and_user_share_logic_witness:
  "route_courses example_env (Some ''Bearer t1'')
       (example_store\<lparr>users := [example_user\<lparr>bioData := None\<rparr>]\<rparr>)
     = (bio_incomplete, example_store\<lparr>users := [example_user\<lparr>bioData := None\<rparr>]\<rparr>)
   \<and> route_user example_env (Some ''Bearer t1'')
       (example_store\<lparr>users := [example_user\<lparr>bioData := None\<rparr>]\<rparr>)
     = (bio_incomplete, example_store\<lparr>users := [example_user\<lparr>bioData := None\<rparr>]\<rparr>)
   \<and> erase_applied (fst (route_courses example_env (Some ''Bearer t1'') example_store))
     = erase_applied (fst (route_user example_env (Some ''Bearer t1'') example_store))
   \<and> fst (route_courses example_env (Some ''Bearer t1'') example_store)
     = json 200 (CoursesBody [example_course 7 ''Biology'' 70]
                   (Populated [example_course 7 ''Biology'' 70]))
   \<and> fst (route_user example_env (Some ''Bearer t1'') example_store)
     = json 200 (CoursesBody [example_course 7 ''Biology'' 70] (Refs [7]))"
proof -
  have f: "find (\<lambda>u. uid u = 1) (users (example_store\<lparr>users := [example_user\<lparr>bioData := None\<rparr>]\<rparr>))
             = Some (example_user\<lparr>bioData := None\<rparr>)"
    by (simp add: example_user_def)
  have b: "bioData example_user = Some example_bio" "truthy (specialization example_bio)"
    by (simp_all add: example_user_def example_bio_def)
  have l: "filter (eligible_spec example_bio) (courses example_store)
             = [example_course 7 ''Biology'' 70]"
    by (simp add: example_store_def example_bio_def example_course_def eligible_spec_def)
  have m: "List.map_filter (\<lambda>r. find (\<lambda>c. cid c = r) (courses example_store))
             (coursesApplied example_user) = [example_course 7 ''Biology'' 70]"
    by (simp add: example_store_def example_user_def example_course_def List.map_filter_def)
  have c: "coursesApplied example_user = [7]"
    by (simp add: example_user_def)
  have w1: "route_courses example_env (Some ''Bearer t1'')
       (example_store\<lparr>users := [example_user\<lparr>bioData := None\<rparr>]\<rparr>)
     = (bio_incomplete, example_store\<lparr>users := [example_user\<lparr>bioData := None\<rparr>]\<rparr>)
   \<and> route_user example_env (Some ''Bearer t1'')
       (example_store\<lparr>users := [example_user\<lparr>bioData := None\<rparr>]\<rparr>)
     = (bio_incomplete, example_store\<lparr>users := [example_user\<lparr>bioData := None\<rparr>]\<rparr>)"
    using courses_and_user_share_logic
            [of example_env "Some ''Bearer t1''"
                "example_store\<lparr>users := [example_user\<lparr>bioData := None\<rparr>]\<rparr>"]
          example_auth example_no_throws f
    by (simp add: example_user_def)
  note whole = courses_and_user_share_logic [of example_env "Some ''Bearer t1''" example_store]
  have erased: "erase_applied (fst (route_courses example_env (Some ''Bearer t1'') example_store))
     = erase_applied (fst (route_user example_env (Some ''Bearer t1'') example_store))"
    by (rule whole [THEN conjunct1, rule_format, OF example_no_throws])
  have cond: "auth example_env (Some ''Bearer t1'') = Next 1
      \<and> \<not> throws example_env User_findById_site \<and> \<not> throws example_env User_populate_site
      \<and> \<not> throws example_env Course_find_site
      \<and> find (\<lambda>u. uid u = 1) (users example_store) = Some example_user
      \<and> bioData example_user = Some example_bio \<and> truthy (specialization example_bio)"
    by (intro conjI example_auth example_no_throws example_find b)
  note success = whole [THEN conjunct2, THEN conjunct2, THEN conjunct2, THEN conjunct2,
                        rule_format, OF cond, unfolded l m, unfolded c]
  have w2: "erase_applied (fst (route_courses example_env (Some ''Bearer t1'') example_store))
     = erase_applied (fst (route_user example_env (Some ''Bearer t1'') example_store))
   \<and> fst (route_courses example_env (Some ''Bearer t1'') example_store)
     = json 200 (CoursesBody [example_course 7 ''Biology'' 70]
                   (Populated [example_course 7 ''Biology'' 70]))
   \<and> fst (route_user example_env (Some ''Bearer t1'') example_store)
     = json 200 (CoursesBody [example_course 7 ''Biology'' 70] (Refs [7]))"
    using erased success by blast
  show ?thesis using w1 w2 by blast
qed

text \<open>
  Claim C9. With a valid token whose identifier matches no stored user, GET /courses and
  GET /user answer 400 with the bio-incomplete message, never 404, which is the answer a
  stored user without bio data gets.
\<close>

theorem unknown_user_reads_as_bio_incomplete:
  assumes "auth env h = Next i" and "\<not> throws env User_findById_site"
      and "find (\<lambda>u. uid u = i) (users st) = None"
  shows "route_courses env h st = (bio_incomplete, st)
       \<and> route_user env h st = (bio_incomplete, st)
       \<and> bio_incomplete
           = \<lparr>status = 400,
              body = ErrorBody ''Please complete your bio data before applying for courses.''\<rparr>
       \<and> status (fst (route_courses env h st)) \<noteq> 404
       \<and> status (fst (route_user env h st)) \<noteq> 404
       \<and> (\<forall>st2 u. find (\<lambda>u. uid u = i) (users st2) = Some u \<and> bioData u = Some default_bioData
            \<longrightarrow> (\<not> throws env User_populate_site
                   \<longrightarrow> fst (route_courses env h st2) = fst (route_courses env h st))
              \<and> fst (route_user env h st2) = fst (route_user env h st))"
  using assms
  by (auto simp: route_courses_def route_user_def protected_Next get_unknown get_incomplete
                 default_bioData_def bio_incomplete_def json_def)

theorem unknown_user_reads_as_bio_incomplete_witness:
  "route_courses example_env (Some ''Bearer t1'') (example_store\<lparr>users := []\<rparr>)
     = (bio_incomplete, example_store\<lparr>users := []\<rparr>)
   \<and> route_user example_env (Some ''Bearer t1'') (example_store\<lparr>users := []\<rparr>)
     = (bio_incomplete, example_store\<lparr>users := []\<rparr>)"
proof -
  have f: "find (\<lambda>u. uid u = 1) (users (example_store\<lparr>users := []\<rparr>)) = None"
    by simp
  show ?thesis
    using unknown_user_reads_as_bio_incomplete [OF example_auth example_no_throws f] by simp
qed

section \<open>POST /signup\<close>

lemma new_User_invalid: "\<not> validate (new_User env e hp n ph)"
  by (simp add: validate_def new_User_def default_bioData_def valid_bioData_def)

lemma save_new_User: "save_new env st (new_User env e hp n ph) = Inl Thrown"
  by (simp add: save_new_def new_User_invalid)

lemma signup_state: "snd (signup env b st) = st"
  by (simp add: signup_def save_new_User Let_def split: sum.splits option.splits)

lemma signup_never_201: "status (fst (signup env b st)) \<noteq> 201"
  by (simp add: signup_def save_new_User Let_def json_def internal_error_def
           split: sum.splits option.splits)

lemma signup_conflict:
  assumes "\<not> throws env User_findOne_site" and "u \<in> set (users st)"
      and "email u = body_email b \<or> username u = body_username b"
  shows "signup env b st = (json 409 (MessageBody ''User already exists''), st)"
proof -
  have "find (\<lambda>u. email u = body_email b \<or> username u = body_username b) (users st) \<noteq> None"
    using assms(2,3) by (auto simp: find_None_iff)
  then obtain v where
    "find (\<lambda>u. email u = body_email b \<or> username u = body_username b) (users st) = Some v"
    by auto
  then show ?thesis
    using assms(1) by (simp add: signup_def User_findOne_def)
qed


lemma signup_reachable_no_users: "signup_reachable st \<Longrightarrow> users st = []"
  by (induction rule: signup_reachable.induct) (simp_all add: signup_state)

lemma signup_no_match:
  assumes "\<not> throws env User_findOne_site"
      and "\<forall>u \<in> set (users st). email u \<noteq> body_email b \<and> username u \<noteq> body_username b"
  shows "signup env b st = (internal_error, st)"
proof -
  have "find (\<lambda>u. email u = body_email b \<or> username u = body_username b) (users st) = None"
    using assms(2) by (auto simp: find_None_iff)
  then show ?thesis
    using assms(1)
    by (simp add: signup_def User_findOne_def save_new_User Let_def split: sum.splits)
qed

text \<open>
  Claim C4 (what the code does). Stores built by signups keep emails and usernames unique,
  and a signup whose email or username matches a stored user answers 409 and leaves the
  store as it is. Every other signup answers 500 and creates nobody: the new document
  carries the default bio data, which the schema's required fields refuse at \<open>save\<close>. No
  signup answers 201.
\<close>

theorem signup_never_creates_a_user:
  "(signup_reachable st \<longrightarrow> unique_credentials st)
   \<and> (\<not> throws env User_findOne_site
        \<and> (\<exists>u \<in> set (users st). email u = body_email b \<or> username u = body_username b)
      \<longrightarrow> signup env b st = (json 409 (MessageBody ''User already exists''), st))
   \<and> (\<not> throws env User_findOne_site
        \<and> (\<forall>u \<in> set (users st). email u \<noteq> body_email b \<and> username u \<noteq> body_username b)
      \<longrightarrow> signup env b st = (internal_error, st))
   \<and> status (fst (signup env b st)) \<noteq> 201
   \<and> snd (signup env b st) = st"
proof -
  have a: "signup_reachable st \<longrightarrow> unique_credentials st"
    by (auto simp: unique_credentials_def dest: signup_reachable_no_users)
  have b: "\<not> throws env User_findOne_site
        \<and> (\<exists>u \<in> set (users st). email u = body_email b \<or> username u = body_username b)
      \<longrightarrow> signup env b st = (json 409 (MessageBody ''User already exists''), st)"
    using signup_conflict [of env _ st b] by blast
  have c: "\<not> throws env User_findOne_site
        \<and> (\<forall>u \<in> set (users st). email u \<noteq> body_email b \<and> username u \<noteq> body_username b)
      \<longrightarrow> signup env b st = (internal_error, st)"
    using signup_no_match [of env st b] by blast
  show ?thesis
    using a b c signup_never_201 [of env b st] signup_state [of env b st] by blast
qed

theorem signup_never_creates_a_user_witness:
  "signup example_env example_signup empty_store = (internal_error, empty_store)
   \<and> signup example_env example_signup example_store
       = (json 409 (MessageBody ''User already exists''), example_store)
   \<and> unique_credentials empty_store"
proof -
  have r: "signup_reachable empty_store"
    unfolding empty_store_def by (rule signup_reachable.empty_users)
  show ?thesis
    using signup_never_creates_a_user [of empty_store example_env example_signup]
          signup_never_creates_a_user [of example_store example_env example_signup]
          r example_no_throws
    by (simp add: example_store_def example_user_def example_signup_def empty_store_def)
qed

section \<open>POST /apply/:courseId\<close>




lemma post_apply_found:
  assumes "\<not> throws env User_findById_site" and "\<not> throws env User_save_site"
      and "find (\<lambda>u. uid u = i) (users st) = Some u"
      and "cast_ObjectId c = Some c'" and "validate u"
  shows "post_apply env c i st =
             (json 200 (UserBody ''Course applied successfully'' (applied_user u [c'])),
              st\<lparr>users := map (\<lambda>v. if uid v = i then applied_user u [c'] else v) (users st)\<rparr>)"
proof -
  have i: "uid u = i" using assms(3) by (rule find_uid)
  have f: "User_findById env st i = Inr (Some u)"
    using assms by (simp add: User_findById_def)
  have p: "push_js (coursesApplied u) c = Inr (coursesApplied u @ [c'])"
    using assms(4) by (simp add: push_js_def)
  have s: "save env st (applied_user u [c'])
            = Inr (st\<lparr>users := map (\<lambda>v. if uid v = i then applied_user u [c'] else v) (users st)\<rparr>)"
    using assms(2,5) i by (simp add: save_def)
  show ?thesis
    by (simp add: post_apply_def f p s Let_def)
qed

lemma post_apply_reload:
  assumes "\<not> throws env User_findById_site" and "\<not> throws env User_save_site"
      and "find (\<lambda>u. uid u = i) (users st) = Some u"
      and "cast_ObjectId c = Some c'" and "validate u"
  shows "find (\<lambda>v. uid v = i) (users (snd (post_apply env c i st))) = Some (applied_user u [c'])"
proof -
  have i: "uid (applied_user u [c']) = i" using find_uid [OF assms(3)] by simp
  show ?thesis
    using find_written_back [OF assms(3) i] find_uid [OF assms(3)]
    by (simp add: post_apply_found [OF assms])
qed




lemma post_apply_200:
  assumes "status (fst (post_apply env c i st)) = 200"
  shows "\<exists>u c'. find (\<lambda>v. uid v = i) (users st) = Some u \<and> cast_ObjectId c = Some c'
            \<and> fst (post_apply env c i st)
                = json 200 (UserBody ''Course applied successfully'' (applied_user u [c']))
            \<and> find (\<lambda>v. uid v = i) (users (snd (post_apply env c i st)))
                = Some (applied_user u [c'])"
proof -
  from assms obtain u c' where
    f: "find (\<lambda>v. uid v = i) (users st) = Some u"
    and c: "cast_ObjectId c = Some c'"
    and t: "\<not> throws env User_findById_site" "\<not> throws env User_save_site"
    and v: "validate u"
    by (auto simp: post_apply_def User_findById_def push_js_def save_def json_def
                   internal_error_def Let_def
             split: if_splits option.splits)
  show ?thesis
    using f c post_apply_found [OF t f c v] post_apply_reload [OF t f c v] by simp
qed

text \<open>
  Claim C10. Whenever POST /apply/:courseId answers 200, the body's user object is the whole
  stored user document, password field included; for a user created by signup that field
  is the bcrypt hash computed at signup, so the stored hash is sent to the caller.
\<close>

theorem apply_response_discloses_password_hash:
  "(status (fst (route_apply env h c st)) = 200
      \<longrightarrow> (\<exists>i u c'. auth env h = Next i \<and> find (\<lambda>v. uid v = i) (users st) = Some u
                \<and> cast_ObjectId c = Some c'
                \<and> body (fst (route_apply env h c st))
                    = UserBody ''Course applied successfully''
                        (u\<lparr>coursesApplied := coursesApplied u @ [c'],
                           applicationStatus := Under_Review\<rparr>)
                \<and> find (\<lambda>v. uid v = i) (users (snd (route_apply env h c st)))
                    = Some (u\<lparr>coursesApplied := coursesApplied u @ [c'],
                              applicationStatus := Under_Review\<rparr>)
                \<and> password (u\<lparr>coursesApplied := coursesApplied u @ [c'],
                               applicationStatus := Under_Review\<rparr>) = password u))
   \<and> (\<forall>env0 b st0 hp.
         status (fst (signup env0 b st0)) = 201 \<and> st = snd (signup env0 b st0)
         \<and> bcrypt_hash env0 (body_password b) = Inr hp
         \<and> auth env h = Next (new_ObjectId env0)
         \<and> status (fst (route_apply env h c st)) = 200
      \<longrightarrow> (\<exists>u. body (fst (route_apply env h c st)) = UserBody ''Course applied successfully'' u
              \<and> email u = body_email b \<and> password u = hp))"
proof -
  have a: "status (fst (route_apply env h c st)) = 200
      \<Longrightarrow> (\<exists>i u c'. auth env h = Next i \<and> find (\<lambda>v. uid v = i) (users st) = Some u
                \<and> cast_ObjectId c = Some c'
                \<and> body (fst (route_apply env h c st))
                    = UserBody ''Course applied successfully'' (applied_user u [c'])
                \<and> find (\<lambda>v. uid v = i) (users (snd (route_apply env h c st)))
                    = Some (applied_user u [c']))"
  proof (cases "auth env h")
    case (Respond r)
    assume "status (fst (route_apply env h c st)) = 200"
    then show ?thesis
      using auth_status [OF Respond] Respond by (auto simp: route_apply_def protected_def)
  next
    case (Next i)
    assume "status (fst (route_apply env h c st)) = 200"
    then have "status (fst (post_apply env c i st)) = 200"
      using Next by (simp add: route_apply_def protected_def)
    from post_apply_200 [OF this] show ?thesis
      using Next by (auto simp: route_apply_def protected_def json_def)
  qed
  show ?thesis using a signup_never_201 by (simp (no_asm_simp)) blast
qed

theorem apply_response_discloses_password_hash_witness:
  "body (fst (route_apply example_env (Some ''Bearer t1'') ''000000000000000000000007''
                example_store))
     = UserBody ''Course applied successfully''
         (example_user\<lparr>coursesApplied := [7, 7], applicationStatus := Under_Review\<rparr>)
   \<and> password (example_user\<lparr>coursesApplied := [7, 7], applicationStatus := Under_Review\<rparr>)
     = ''$2b$10$pw''"
proof -
  have p: "post_apply example_env ''000000000000000000000007'' 1 example_store
             = (json 200 (UserBody ''Course applied successfully'' (applied_user example_user [7])),
                example_store\<lparr>users := map (\<lambda>v. if uid v = 1 then applied_user example_user [7]
                                                    else v) (users example_store)\<rparr>)"
    by (rule post_apply_found [OF example_no_throws example_no_throws example_find cast_7
                                  example_user_valid])
  have s: "status (fst (route_apply example_env (Some ''Bearer t1'')
                          ''000000000000000000000007'' example_store)) = 200"
    unfolding route_apply_def protected_Next [OF example_auth] p by (simp add: json_def)
  show ?thesis
    using apply_response_discloses_password_hash
            [of example_env "Some ''Bearer t1''" "''000000000000000000000007''" example_store]
          s example_auth example_find cast_7
    by (auto simp: example_user_def)
qed

section \<open>POST /apply-course\<close>





lemma post_apply_course_new:
  assumes "\<not> throws env User_findById_site" and "\<not> throws env User_save_site"
      and "find (\<lambda>u. uid u = i) (users st) = Some u"
      and "\<not> includes_js (coursesApplied u) c" and "cast_ObjectId c = Some c'"
      and "validate u"
  shows "post_apply_course env (Some c) i st
           = (json 200 (MessageBody ''Application submitted successfully!''),
              st\<lparr>users := map (\<lambda>v. if uid v = i then u\<lparr>coursesApplied := coursesApplied u @ [c']\<rparr>
                                     else v)
                                (users st)\<rparr>)"
proof -
  have i: "uid u = i" using assms(3) by (rule find_uid)
  have f: "User_findById env st i = Inr (Some u)"
    using assms by (simp add: User_findById_def)
  have p: "push_js (coursesApplied u) c = Inr (coursesApplied u @ [c'])"
    using assms(5) by (simp add: push_js_def)
  have s: "save env st (u\<lparr>coursesApplied := coursesApplied u @ [c']\<rparr>)
            = Inr (st\<lparr>users := map (\<lambda>v. if uid v = i
                                          then u\<lparr>coursesApplied := coursesApplied u @ [c']\<rparr> else v)
                                     (users st)\<rparr>)"
    using assms(2,6) i by (simp add: save_def)
  show ?thesis
    using assms(4) cast_nonempty [OF assms(5)]
    by (simp add: post_apply_course_def f p s Let_def)
qed

lemma post_apply_course_reload:
  assumes "\<not> throws env User_findById_site" and "\<not> throws env User_save_site"
      and "find (\<lambda>u. uid u = i) (users st) = Some u"
      and "\<not> includes_js (coursesApplied u) c" and "cast_ObjectId c = Some c'"
      and "validate u"
  shows "find (\<lambda>v. uid v = i) (users (snd (post_apply_course env (Some c) i st)))
           = Some (u\<lparr>coursesApplied := coursesApplied u @ [c']\<rparr>)"
proof -
  have i: "uid (u\<lparr>coursesApplied := coursesApplied u @ [c']\<rparr>) = i"
    using find_uid [OF assms(3)] by simp
  show ?thesis
    using find_written_back [OF assms(3) i] find_uid [OF assms(3)]
    by (simp add: post_apply_course_new [OF assms])
qed




text \<open>
  The duplicate guard compares texts, while \<open>push\<close> casts: the same identifier written
  with an upper-case digit passes the guard again, and the second request answers 200 and
  stores the identifier twice.
\<close>

lemma apply_course_other_spelling_twice:
  "fst (post_apply_course example_env (Some ''00000000000000000000000A'') 1
          (snd (post_apply_course example_env (Some ''00000000000000000000000A'') 1
                  example_store)))
     = json 200 (MessageBody ''Application submitted successfully!'')
   \<and> find (\<lambda>v. uid v = 1)
        (users (snd (post_apply_course example_env (Some ''00000000000000000000000A'') 1
                  (snd (post_apply_course example_env (Some ''00000000000000000000000A'') 1
                          example_store)))))
     = Some (example_user\<lparr>coursesApplied := [7, 10, 10]\<rparr>)"
proof -
  have n1: "\<not> includes_js (coursesApplied example_user) ''00000000000000000000000A''"
    using includes_upper_1 by (simp add: example_user_def)
  note first = post_apply_course_reload
                 [OF example_no_throws example_no_throws example_find n1 cast_upper
                     example_user_valid]
  have n2: "\<not> includes_js (coursesApplied (example_user\<lparr>coursesApplied :=
                                 coursesApplied example_user @ [10]\<rparr>))
               ''00000000000000000000000A''"
    using includes_upper_2 by (simp add: example_user_def)
  have v: "validate (example_user\<lparr>coursesApplied := coursesApplied example_user @ [10]\<rparr>)"
    using example_user_valid by simp
  note second = post_apply_course_new
                  [OF example_no_throws example_no_throws first n2 cast_upper v]
  note reload = post_apply_course_reload
                  [OF example_no_throws example_no_throws first n2 cast_upper v]
  show ?thesis
    using second reload by (simp add: example_user_def)
qed

section \<open>POST /bio\<close>

lemma post_bio_missing:
  assumes "\<not> truthy (req_name rq) \<or> \<not> truthy (req_age rq) \<or> \<not> truthy (req_specialization rq)"
  shows "post_bio env rq i st = (json 400 (ErrorBody ''Missing required fields''), st)"
  using assms by (auto simp: post_bio_def)

lemma post_bio_found:
  assumes "truthy (req_name rq)" and "truthy (req_age rq)" and "truthy (req_specialization rq)"
      and "req_files rq = Some files"
      and "\<not> throws env User_findById_site"
      and "find (\<lambda>u. uid u = i) (users st) = Some u"
  shows "post_bio env rq i st =
           (case save env st (u\<lparr>bioData := Some (bio_of_request env rq files)\<rparr>) of
              Inl e \<Rightarrow> (internal_error, st)
            | Inr st' \<Rightarrow>
                (json 200 (BioBody ''Bio data uploaded successfully''
                             (bio_of_request env rq files)), st'))"
  using assms by (simp add: post_bio_def User_findById_def Let_def)

lemma save_bio_invalid:
  "\<not> valid_bioData bio \<Longrightarrow> save env st (u\<lparr>bioData := Some bio\<rparr>) = Inl Thrown"
  by (simp add: save_def validate_def)

lemma save_bio_valid:
  "valid_bioData bio \<Longrightarrow> valid_credentials u \<Longrightarrow> \<not> throws env User_save_site \<Longrightarrow>
   save env st (u\<lparr>bioData := Some bio\<rparr>)
     = Inr (st\<lparr>users := map (\<lambda>v. if uid v = uid u then u\<lparr>bioData := Some bio\<rparr> else v)
                             (users st)\<rparr>)"
  by (simp add: save_def validate_def valid_credentials_def)

lemma post_bio_refused:
  assumes "truthy (req_name rq)" and "truthy (req_age rq)" and "truthy (req_specialization rq)"
      and "req_files rq = Some files"
      and "\<not> throws env User_findById_site"
      and "find (\<lambda>u. uid u = i) (users st) = Some u"
      and "\<not> valid_bioData (bio_of_request env rq files)"
  shows "post_bio env rq i st = (internal_error, st)"
  by (simp add: post_bio_found [OF assms(1-6)] save_bio_invalid [OF assms(7)])

lemma post_bio_saved:
  assumes "truthy (req_name rq)" and "truthy (req_age rq)" and "truthy (req_specialization rq)"
      and "req_files rq = Some files"
      and "\<not> throws env User_findById_site" and "\<not> throws env User_save_site"
      and "find (\<lambda>u. uid u = i) (users st) = Some u"
      and "valid_bioData (bio_of_request env rq files)" and "valid_credentials u"
  shows "post_bio env rq i st =
           (json 200 (BioBody ''Bio data uploaded successfully'' (bio_of_request env rq files)),
            st\<lparr>users := map (\<lambda>v. if uid v = i
                                   then u\<lparr>bioData := Some (bio_of_request env rq files)\<rparr> else v)
                              (users st)\<rparr>)"
proof -
  have i: "uid u = i" using assms(7) by (rule find_uid)
  show ?thesis
    by (simp add: post_bio_found [OF assms(1,2,3,4,5,7)]
                  save_bio_valid [OF assms(8,9,6)] i)
qed

lemma post_bio_reload:
  assumes "truthy (req_name rq)" and "truthy (req_age rq)" and "truthy (req_specialization rq)"
      and "req_files rq = Some files"
      and "\<not> throws env User_findById_site" and "\<not> throws env User_save_site"
      and "find (\<lambda>u. uid u = i) (users st) = Some u"
      and "valid_bioData (bio_of_request env rq files)" and "valid_credentials u"
  shows "find (\<lambda>v. uid v = i) (users (snd (post_bio env rq i st)))
           = Some (u\<lparr>bioData := Some (bio_of_request env rq files)\<rparr>)"
proof -
  have i: "uid (u\<lparr>bioData := Some (bio_of_request env rq files)\<rparr>) = i"
    using find_uid [OF assms(7)] by simp
  show ?thesis
    using find_written_back [OF assms(7) i] find_uid [OF assms(7)]
    by (simp add: post_bio_saved [OF assms])
qed


lemma protected_state:
  assumes "\<And>i. f i st = (r, st)"
  shows "snd (protected env h f st) = st"
  using assms by (cases "auth env h") (simp_all add: protected_def)

lemma is_Number_Some: "is_Number (Some x) = (\<exists>n. x = Num n)"
  by (cases x) simp_all

lemma valid_bio_of_request:
  "valid_bioData (bio_of_request env rq files) =
     (truthy (req_name rq)
      \<and> (\<exists>n. Number_js env (req_age rq) = Num n)
      \<and> (\<exists>s \<in> set specializations. req_specialization rq = Some s)
      \<and> (\<exists>n. Number_js env (req_marks10th rq) = Num n)
      \<and> (\<exists>n. Number_js env (req_marks12th rq) = Num n))"
  by (cases "req_specialization rq")
     (auto simp: valid_bioData_def bio_of_request_def is_Number_Some)

text \<open>
  Claim C6 (amended). When name, age or specialization is missing from a bio submission,
  the store is left exactly as it was (so the stored bio data and its certificates are
  untouched), and the authenticated request is answered 400 "Missing required fields". When
  the three fields are present in an authenticated multipart request of an existing user:
  if the submitted bio data passes the schema (age and both marks are numbers, the
  specialization is one of the four of the enum) and \<open>save\<close> does not raise, the stored bio
  data becomes the submitted one, whatever it was before, with the certificates being the
  filenames of the uploaded files; if the submitted bio data does not pass the schema, the
  answer is 500 and the store is left as it was.
\<close>

theorem bio_replaced_when_schema_valid:
  "(\<not> truthy (req_name rq) \<or> \<not> truthy (req_age rq) \<or> \<not> truthy (req_specialization rq)
      \<longrightarrow> snd (route_bio env h rq st) = st
        \<and> (\<forall>i. auth env h = Next i
              \<longrightarrow> route_bio env h rq st = (json 400 (ErrorBody ''Missing required fields''), st)))
   \<and> (\<forall>i u files. truthy (req_name rq) \<and> truthy (req_age rq) \<and> truthy (req_specialization rq)
         \<and> req_files rq = Some files
         \<and> auth env h = Next i
         \<and> \<not> throws env User_findById_site
         \<and> find (\<lambda>u. uid u = i) (users st) = Some u
      \<longrightarrow> (valid_bioData (bio_of_request env rq files) \<and> valid_credentials u
             \<and> \<not> throws env User_save_site
           \<longrightarrow> fst (route_bio env h rq st)
                 = json 200 (BioBody ''Bio data uploaded successfully''
                               (bio_of_request env rq files))
             \<and> find (\<lambda>v. uid v = i) (users (snd (route_bio env h rq st)))
                 = Some (u\<lparr>bioData := Some (bio_of_request env rq files)\<rparr>)
             \<and> courses (snd (route_bio env h rq st)) = courses st)
        \<and> (\<not> valid_bioData (bio_of_request env rq files)
           \<longrightarrow> route_bio env h rq st = (internal_error, st)))
   \<and> (\<forall>files.
         bio_of_request env rq files
           = \<lparr>name = req_name rq,
              age = Some (Number_js env (req_age rq)),
              specialization = req_specialization rq,
              marks10th = Some (Number_js env (req_marks10th rq)),
              marks12th = Some (Number_js env (req_marks12th rq)),
              certificates = map filename files\<rparr>
       \<and> valid_bioData (bio_of_request env rq files)
           = (truthy (req_name rq)
              \<and> (\<exists>n. Number_js env (req_age rq) = Num n)
              \<and> (\<exists>s \<in> set specializations. req_specialization rq = Some s)
              \<and> (\<exists>n. Number_js env (req_marks10th rq) = Num n)
              \<and> (\<exists>n. Number_js env (req_marks12th rq) = Num n)))"
proof -
  have a: "\<not> truthy (req_name rq) \<or> \<not> truthy (req_age rq) \<or> \<not> truthy (req_specialization rq)
      \<longrightarrow> snd (route_bio env h rq st) = st
        \<and> (\<forall>i. auth env h = Next i
              \<longrightarrow> route_bio env h rq st = (json 400 (ErrorBody ''Missing required fields''), st))"
    by (auto simp: route_bio_def protected_Next post_bio_missing
             intro: protected_state [where r = "json 400 (ErrorBody ''Missing required fields'')"])
  have b: "(valid_bioData (bio_of_request env rq files) \<and> valid_credentials u
             \<and> \<not> throws env User_save_site
           \<longrightarrow> fst (route_bio env h rq st)
                 = json 200 (BioBody ''Bio data uploaded successfully''
                               (bio_of_request env rq files))
             \<and> find (\<lambda>v. uid v = i) (users (snd (route_bio env h rq st)))
                 = Some (u\<lparr>bioData := Some (bio_of_request env rq files)\<rparr>)
             \<and> courses (snd (route_bio env h rq st)) = courses st)
        \<and> (\<not> valid_bioData (bio_of_request env rq files)
           \<longrightarrow> route_bio env h rq st = (internal_error, st))"
    if h: "truthy (req_name rq) \<and> truthy (req_age rq) \<and> truthy (req_specialization rq)
         \<and> req_files rq = Some files
         \<and> auth env h = Next i
         \<and> \<not> throws env User_findById_site
         \<and> find (\<lambda>u. uid u = i) (users st) = Some u" for i u files
  proof -
    from h have r: "route_bio env h rq st = post_bio env rq i st"
      by (simp add: route_bio_def protected_Next)
    have ok: "fst (post_bio env rq i st)
                 = json 200 (BioBody ''Bio data uploaded successfully''
                               (bio_of_request env rq files))
             \<and> find (\<lambda>v. uid v = i) (users (snd (post_bio env rq i st)))
                 = Some (u\<lparr>bioData := Some (bio_of_request env rq files)\<rparr>)
             \<and> courses (snd (post_bio env rq i st)) = courses st"
      if v: "valid_bioData (bio_of_request env rq files)" "valid_credentials u"
            "\<not> throws env User_save_site"
    proof -
      have s: "post_bio env rq i st =
           (json 200 (BioBody ''Bio data uploaded successfully'' (bio_of_request env rq files)),
            st\<lparr>users := map (\<lambda>v. if uid v = i
                                   then u\<lparr>bioData := Some (bio_of_request env rq files)\<rparr> else v)
                              (users st)\<rparr>)"
        using h v by (intro post_bio_saved) simp_all
      have l: "find (\<lambda>v. uid v = i) (users (snd (post_bio env rq i st)))
           = Some (u\<lparr>bioData := Some (bio_of_request env rq files)\<rparr>)"
        using h v by (intro post_bio_reload) simp_all
      show ?thesis using l by (simp add: s)
    qed
    have no: "post_bio env rq i st = (internal_error, st)"
      if "\<not> valid_bioData (bio_of_request env rq files)"
      using h that by (intro post_bio_refused [where files = files and u = u]) simp_all
    show ?thesis unfolding r using ok no by blast
  qed
  have c: "\<And>files. bio_of_request env rq files
           = \<lparr>name = req_name rq,
              age = Some (Number_js env (req_age rq)),
              specialization = req_specialization rq,
              marks10th = Some (Number_js env (req_marks10th rq)),
              marks12th = Some (Number_js env (req_marks12th rq)),
              certificates = map filename files\<rparr>"
    by (simp add: bio_of_request_def)
  have b': "\<forall>i u files. truthy (req_name rq) \<and> truthy (req_age rq) \<and> truthy (req_specialization rq)
         \<and> req_files rq = Some files
         \<and> auth env h = Next i
         \<and> \<not> throws env User_findById_site
         \<and> find (\<lambda>u. uid u = i) (users st) = Some u
      \<longrightarrow> (valid_bioData (bio_of_request env rq files) \<and> valid_credentials u
             \<and> \<not> throws env User_save_site
           \<longrightarrow> fst (route_bio env h rq st)
                 = json 200 (BioBody ''Bio data uploaded successfully''
                               (bio_of_request env rq files))
             \<and> find (\<lambda>v. uid v = i) (users (snd (route_bio env h rq st)))
                 = Some (u\<lparr>bioData := Some (bio_of_request env rq files)\<rparr>)
             \<and> courses (snd (route_bio env h rq st)) = courses st)
        \<and> (\<not> valid_bioData (bio_of_request env rq files)
           \<longrightarrow> route_bio env h rq st = (internal_error, st))"
    by (intro allI impI b)
  have d: "\<forall>files.
         bio_of_request env rq files
           = \<lparr>name = req_name rq,
              age = Some (Number_js env (req_age rq)),
              specialization = req_specialization rq,
              marks10th = Some (Number_js env (req_marks10th rq)),
              marks12th = Some (Number_js env (req_marks12th rq)),
              certificates = map filename files\<rparr>
       \<and> valid_bioData (bio_of_request env rq files)
           = (truthy (req_name rq)
              \<and> (\<exists>n. Number_js env (req_age rq) = Num n)
              \<and> (\<exists>s \<in> set specializations. req_specialization rq = Some s)
              \<and> (\<exists>n. Number_js env (req_marks10th rq) = Num n)
              \<and> (\<exists>n. Number_js env (req_marks12th rq) = Num n))"
    by (intro allI conjI c valid_bio_of_request)
  show ?thesis
    by (intro conjI a b' d)
qed

lemma example_full_valid:
  "valid_bioData (bio_of_request example_env example_full_request example_files)"
  by (simp add: valid_bio_of_request example_full_request_def example_env_def
                specializations_def)

lemma example_physics_invalid:
  "\<not> valid_bioData (bio_of_request example_env
                       (example_full_request\<lparr>req_specialization := Some ''Physics''\<rparr>)
                       example_files)"
  by (simp add: valid_bio_of_request example_full_request_def specializations_def)

lemma example_user_credentials: "valid_credentials example_user"
  by (simp add: valid_credentials_def example_user_def)

theorem bio_replaced_when_schema_valid_witness:
  "route_bio example_env (Some ''Bearer t1'') (example_full_request\<lparr>req_specialization := None\<rparr>)
       example_store
     = (json 400 (ErrorBody ''Missing required fields''), example_store)
   \<and> fst (route_bio example_env (Some ''Bearer t1'') example_full_request example_store)
     = json 200 (BioBody ''Bio data uploaded successfully''
         \<lparr>name = Some ''Alice B'', age = Some (Num 19), specialization = Some ''Accounts'',
          marks10th = Some (Num 80), marks12th = Some (Num 80),
          certificates = [''1700000000000-my-cert.pdf'']\<rparr>)
   \<and> find (\<lambda>v. uid v = 1)
        (users (snd (route_bio example_env (Some ''Bearer t1'') example_full_request
                       example_store)))
     = Some (example_user\<lparr>bioData := Some
         \<lparr>name = Some ''Alice B'', age = Some (Num 19), specialization = Some ''Accounts'',
          marks10th = Some (Num 80), marks12th = Some (Num 80),
          certificates = [''1700000000000-my-cert.pdf'']\<rparr>\<rparr>)"
proof -
  note missing = bio_replaced_when_schema_valid
                   [of "example_full_request\<lparr>req_specialization := None\<rparr>" example_env
                       "Some ''Bearer t1''" example_store, THEN conjunct1]
  have w1: "route_bio example_env (Some ''Bearer t1'')
              (example_full_request\<lparr>req_specialization := None\<rparr>) example_store
            = (json 400 (ErrorBody ''Missing required fields''), example_store)"
    using missing example_auth by simp
  note whole = bio_replaced_when_schema_valid
                 [of example_full_request example_env "Some ''Bearer t1''" example_store]
  have cond: "truthy (req_name example_full_request) \<and> truthy (req_age example_full_request)
      \<and> truthy (req_specialization example_full_request)
      \<and> req_files example_full_request = Some example_files
      \<and> auth example_env (Some ''Bearer t1'') = Next 1
      \<and> \<not> throws example_env User_findById_site
      \<and> find (\<lambda>u. uid u = 1) (users example_store) = Some example_user"
    using example_auth example_no_throws example_find
    by (simp add: example_full_request_def)
  have ok: "valid_bioData (bio_of_request example_env example_full_request example_files)
      \<and> valid_credentials example_user \<and> \<not> throws example_env User_save_site"
    by (intro conjI example_full_valid example_user_credentials example_no_throws)
  note stored = whole [THEN conjunct2, THEN conjunct1, rule_format, OF cond, THEN conjunct1,
                       rule_format, OF ok]
  have lit: "bio_of_request example_env example_full_request example_files
      = \<lparr>name = Some ''Alice B'', age = Some (Num 19), specialization = Some ''Accounts'',
          marks10th = Some (Num 80), marks12th = Some (Num 80),
          certificates = [''1700000000000-my-cert.pdf'']\<rparr>"
    by (simp add: bio_of_request_def example_full_request_def example_files_def example_env_def)
  show ?thesis
    using w1 stored [unfolded lit] by blast
qed

text \<open>
  Presence of the three fields is not enough: with a specialization outside the enum the
  answer is 500 and the bio data is not replaced.
\<close>

theorem bio_not_replaced_counterexample:
  "route_bio example_env (Some ''Bearer t1'')
     (example_full_request\<lparr>req_specialization := Some ''Physics''\<rparr>) example_store
   = (internal_error, example_store)"
proof -
  have "post_bio example_env (example_full_request\<lparr>req_specialization := Some ''Physics''\<rparr>) 1
          example_store
        = (internal_error, example_store)"
    by (rule post_bio_refused [OF _ _ _ _ example_no_throws example_find example_physics_invalid])
       (simp_all add: example_full_request_def)
  then show ?thesis
    unfolding route_bio_def protected_Next [OF example_auth] .
qed



end
